theory Spec2Isabelle
  imports Main "HOL-Library.Word"
begin

unbundle bit_operations_syntax

section \<open>The GreatFET logic-analyzer protocol layer (libgreat commands over libusb)\<close>

text \<open>
  The C functions of the protocol file are embedded as HOL functions. libusb is an
  external library: each of its calls takes its outcome from an explicit environment
  argument, and every function returns the list of calls it made (its trace) next to
  its result. Return codes are C \<open>int\<close>s and are never computed with, so they are
  \<open>int\<close>; bytes, \<open>uint16_t\<close> and \<open>uint32_t\<close> are words. A pointer to bytes is
  \<open>u8 list option\<close>: \<open>None\<close> is \<open>NULL\<close>, \<open>Some bs\<close> the region it points to.
  The logging calls (\<open>sr_err\<close>, \<open>sr_spew\<close>, \<open>sr_info\<close>) have no effect on results
  and are left out. The host is taken to be little-endian.
\<close>

type_synonym u8 = "8 word"
type_synonym u16 = "16 word"
type_synonym u32 = "32 word"
type_synonym u64 = "64 word"

subsection \<open>libusb.h: constants and the transfer object\<close>

definition LIBUSB_ERROR_IO :: int where "LIBUSB_ERROR_IO = - 1"
definition LIBUSB_ERROR_INVALID_PARAM :: int where "LIBUSB_ERROR_INVALID_PARAM = - 2"
definition LIBUSB_ERROR_NO_DEVICE :: int where "LIBUSB_ERROR_NO_DEVICE = - 4"
definition LIBUSB_ERROR_BUSY :: int where "LIBUSB_ERROR_BUSY = - 6"
definition LIBUSB_ERROR_INTERRUPTED :: int where "LIBUSB_ERROR_INTERRUPTED = - 10"
definition LIBUSB_ERROR_NO_MEM :: int where "LIBUSB_ERROR_NO_MEM = - 11"

definition LIBUSB_ENDPOINT_IN :: u8 where "LIBUSB_ENDPOINT_IN = 0x80"
definition LIBUSB_ENDPOINT_OUT :: u8 where "LIBUSB_ENDPOINT_OUT = 0x00"
definition LIBUSB_REQUEST_TYPE_VENDOR :: u8 where "LIBUSB_REQUEST_TYPE_VENDOR = 0x40"
definition LIBUSB_RECIPIENT_ENDPOINT :: u8 where "LIBUSB_RECIPIENT_ENDPOINT = 0x02"
definition LIBUSB_CONTROL_SETUP_SIZE :: nat where "LIBUSB_CONTROL_SETUP_SIZE = 8"

datatype libusb_transfer_status =
  LIBUSB_TRANSFER_COMPLETED | LIBUSB_TRANSFER_ERROR | LIBUSB_TRANSFER_TIMED_OUT
| LIBUSB_TRANSFER_CANCELLED | LIBUSB_TRANSFER_STALL | LIBUSB_TRANSFER_NO_DEVICE
| LIBUSB_TRANSFER_OVERFLOW

text \<open>
  The fields of \<open>struct libusb_transfer\<close> that the code or libusb reads or writes;
  its \<open>length\<close> is \<open>xfer_length\<close> here. \<open>completed\<close> is the \<open>int\<close> cell that
  \<open>user_data\<close> points to (the local \<open>transfer_completed\<close> of
  \<open>sync_async_control_transfer\<close>). A device handle is \<open>None\<close> when null.
\<close>

record libusb_transfer =
  dev_handle :: "nat option"
  status :: libusb_transfer_status
  xfer_length :: nat
  actual_length :: nat
  buffer :: "u8 list"
  timeout :: nat
  completed :: int

text \<open>What the program can do other than return: wait forever, or touch memory it must not.\<close>

datatype fault = Hang | NullDeref | Overrun

text \<open>The calls a function makes, in order.\<close>

datatype io_event =
  ControlTransfer u8 u8 u16 u16 u16
| LibusbAllocTransfer
| Malloc nat
| LibusbSubmitTransfer "u8 list"
| LibusbHandleEvents
| LibusbCancelTransfer
| Free
| LibusbFreeTransfer
| LibusbClaimInterface nat

subsection \<open>Bytes\<close>

definition le16 :: "u16 \<Rightarrow> u8 list" where
  "le16 w = [ucast w, ucast (drop_bit 8 w)]"

definition le32 :: "u32 \<Rightarrow> u8 list" where
  "le32 w = [ucast w, ucast (drop_bit 8 w), ucast (drop_bit 16 w), ucast (drop_bit 24 w)]"

definition from_le32 :: "u8 list \<Rightarrow> u32" where
  "from_le32 bs =
     ucast (bs ! 0) OR push_bit 8 (ucast (bs ! 1)) OR push_bit 16 (ucast (bs ! 2))
       OR push_bit 24 (ucast (bs ! 3))"

text \<open>Overwrite \<open>buf\<close> from offset \<open>off\<close> with \<open>bytes\<close>, never growing \<open>buf\<close>.\<close>

definition write_at :: "nat \<Rightarrow> u8 list \<Rightarrow> u8 list \<Rightarrow> u8 list" where
  "write_at off bytes buf =
     take off buf @ take (length buf - off) bytes @ drop (off + length bytes) buf"

text \<open>
  \<open>memcpy\<close>, reading side: the \<open>n\<close> bytes read through \<open>src\<close>. No byte is accessed when
  \<open>n = 0\<close>; otherwise a null source or a region shorter than \<open>n\<close> is a fault.
\<close>

definition memcpy_src :: "u8 list option \<Rightarrow> nat \<Rightarrow> fault + u8 list" where
  "memcpy_src src n =
     (if n = 0 then Inr []
      else case src of
             None \<Rightarrow> Inl NullDeref
           | Some bs \<Rightarrow> if length bs < n then Inl Overrun else Inr (take n bs))"

text \<open>\<open>memcpy\<close>, writing side: the region behind \<open>dst\<close> after \<open>bytes\<close> were copied to its start.\<close>

definition memcpy_dst :: "u8 list option \<Rightarrow> u8 list \<Rightarrow> fault + u8 list option" where
  "memcpy_dst dst bytes =
     (if bytes = [] then Inr dst
      else case dst of
             None \<Rightarrow> Inl NullDeref
           | Some d \<Rightarrow> if length d < length bytes then Inl Overrun
                      else Inr (Some (bytes @ drop (length bytes) d)))"

subsection \<open>The device instance\<close>

text \<open>
  Modelled from the spec: the types of the fields of \<open>struct greatfet_context\<close>
  (sample_rate u64, num_channels u32, endpoint u8), which protocol.h declares; the
  header is not among the sources. The fields are those the code uses. \<open>transfers\<close>
  is the array of \<open>GREATFET_TRANSFER_POOL_SIZE\<close> transfer pointers: a list with one
  entry per slot, \<open>None\<close> for a null slot, and a loop over
  \<open>i < GREATFET_TRANSFER_POOL_SIZE\<close> visits every entry in order. Of the device
  instance and its USB connection, only the members the code reads are kept.
\<close>

record greatfet_context =
  sample_rate :: u64
  num_channels :: u32
  la_endpoint :: u8
  endpoint :: u8
  transfers :: "nat option list"

record sr_usb_dev_inst =
  devhdl :: "nat option"

record sr_dev_inst =
  conn :: sr_usb_dev_inst
  priv :: greatfet_context

subsection \<open>The synchronous wait on an asynchronous transfer\<close>

text \<open>\<open>greatfet_libusb_transfer_complete_cb\<close>: sets the cell behind \<open>user_data\<close>.\<close>

definition greatfet_libusb_transfer_complete_cb :: "libusb_transfer \<Rightarrow> libusb_transfer" where
  "greatfet_libusb_transfer_complete_cb transfer = transfer\<lparr>completed := 1\<rparr>"

text \<open>
  What one call of \<open>libusb_handle_events_completed\<close> does, chosen by the environment:
  its return value; whether the transfer reaches a terminal state during the call, with
  which status and which bytes from the device; whether the device handle was closed, on
  which libusb nulls \<open>dev_handle\<close> of the transfer.
\<close>

record usb_event =
  ev_rc :: int
  ev_done :: "(libusb_transfer_status \<times> u8 list) option"
  ev_closed :: bool

text \<open>
  On completion libusb stores the status, puts the received bytes into the data stage
  of the buffer (behind the setup packet, at most \<open>wLength\<close> of them), records their
  number and invokes the callback.
\<close>

definition libusb_handle_events_completed :: "usb_event \<Rightarrow> libusb_transfer \<Rightarrow> int \<times> libusb_transfer" where
  "libusb_handle_events_completed ev transfer =
     (let t1 = (case ev_done ev of
                  None \<Rightarrow> transfer
                | Some (st, bytes) \<Rightarrow>
                    greatfet_libusb_transfer_complete_cb
                      (transfer\<lparr>status := st,
                         actual_length :=
                           length (take (xfer_length transfer - LIBUSB_CONTROL_SETUP_SIZE) bytes),
                         buffer :=
                           write_at LIBUSB_CONTROL_SETUP_SIZE
                             (take (xfer_length transfer - LIBUSB_CONTROL_SETUP_SIZE) bytes)
                             (buffer transfer)\<rparr>));
          t2 = (if ev_closed ev then t1\<lparr>dev_handle := None\<rparr> else t1)
      in (ev_rc ev, t2))"

text \<open>
  \<open>sync_transfer_wait_for_completion\<close>. The list holds the outcomes of the coming calls
  of \<open>libusb_handle_events_completed\<close>; when it is used up and the flag is still unset,
  nothing will ever set it and the loop does not end (\<open>Hang\<close>). \<open>rc\<close> is an
  uninitialised local, \<open>None\<close> until the first assignment.
\<close>

fun sync_transfer_wait_for_completion ::
  "usb_event list \<Rightarrow> int option \<Rightarrow> libusb_transfer \<Rightarrow> (fault + int option \<times> libusb_transfer) \<times> io_event list" where
  "sync_transfer_wait_for_completion [] rc transfer =
     (if completed transfer \<noteq> 0 then (Inr (rc, transfer), []) else (Inl Hang, []))"
| "sync_transfer_wait_for_completion (ev # evs) rc transfer =
     (if completed transfer \<noteq> 0 then (Inr (rc, transfer), [])
      else
        (case libusb_handle_events_completed ev transfer of
           (rc', t') \<Rightarrow>
             if rc' < 0 then
               if rc' = LIBUSB_ERROR_INTERRUPTED then
                 (case sync_transfer_wait_for_completion evs (Some rc') t' of
                    (r, tr) \<Rightarrow> (r, LibusbHandleEvents # tr))
               else (Inr (Some rc', t'), [LibusbHandleEvents, LibusbCancelTransfer])
             else
               (case sync_transfer_wait_for_completion evs (Some rc')
                       (if dev_handle t' = None
                        then t'\<lparr>status := LIBUSB_TRANSFER_NO_DEVICE, completed := 1\<rparr>
                        else t') of
                  (r, tr) \<Rightarrow> (r, LibusbHandleEvents # tr))))"

subsection \<open>Control transfers through the asynchronous API\<close>

text \<open>\<open>libusb_fill_control_setup\<close>: the eight bytes of the setup packet, at the start of the buffer.\<close>

definition control_setup :: "u8 \<Rightarrow> u8 \<Rightarrow> u16 \<Rightarrow> u16 \<Rightarrow> u16 \<Rightarrow> u8 list" where
  "control_setup bmRequestType bRequest wValue wIndex wLength =
     [bmRequestType, bRequest] @ le16 wValue @ le16 wIndex @ le16 wLength"

definition libusb_fill_control_setup :: "u8 list \<Rightarrow> u8 \<Rightarrow> u8 \<Rightarrow> u16 \<Rightarrow> u16 \<Rightarrow> u16 \<Rightarrow> u8 list" where
  "libusb_fill_control_setup buf bmRequestType bRequest wValue wIndex wLength =
     write_at 0 (control_setup bmRequestType bRequest wValue wIndex wLength) buf"

text \<open>
  \<open>libusb_fill_control_transfer\<close> on the zeroed object that \<open>libusb_alloc_transfer\<close>
  returns; the length is the setup size plus the \<open>wLength\<close> read back from the buffer.
\<close>

definition libusb_fill_control_transfer :: "nat option \<Rightarrow> u8 list \<Rightarrow> u16 \<Rightarrow> nat \<Rightarrow> libusb_transfer" where
  "libusb_fill_control_transfer handle buf wLength tmo =
     \<lparr>dev_handle = handle, status = LIBUSB_TRANSFER_COMPLETED,
      xfer_length = LIBUSB_CONTROL_SETUP_SIZE + unat wLength, actual_length = 0,
      buffer = buf, timeout = tmo, completed = 0\<rparr>"

text \<open>
  How libusb and the allocator behave during one \<open>sync_async_control_transfer\<close>:
  whether \<open>libusb_alloc_transfer\<close> and \<open>malloc\<close> succeed, the uninitialised content
  of the new buffer, the return value of \<open>libusb_submit_transfer\<close>, and the outcomes of
  the calls of \<open>libusb_handle_events_completed\<close> that follow.
\<close>

record ctrl_env =
  alloc_ok :: bool
  malloc_ok :: bool
  heap_garbage :: "nat \<Rightarrow> u8"
  submit_rc :: int
  events :: "usb_event list"

text \<open>
  The scratch buffer of \<open>LIBUSB_CONTROL_SETUP_SIZE + wLength + 1\<close> bytes: the setup
  packet, then for a host-to-device request the \<open>wLength\<close> bytes behind \<open>data\<close>.
\<close>

definition transfer_buffer ::
  "ctrl_env \<Rightarrow> u8 \<Rightarrow> u8 \<Rightarrow> u16 \<Rightarrow> u16 \<Rightarrow> u8 list option \<Rightarrow> u16 \<Rightarrow> fault + u8 list" where
  "transfer_buffer env request_type bRequest wValue wIndex data wLength =
     (let buf = libusb_fill_control_setup
                  (map (heap_garbage env) [0..<LIBUSB_CONTROL_SETUP_SIZE + unat wLength + 1])
                  request_type bRequest wValue wIndex wLength
      in if request_type AND 0x80 = LIBUSB_ENDPOINT_OUT then
           (case memcpy_src data (unat wLength) of
              Inl f \<Rightarrow> Inl f
            | Inr bytes \<Rightarrow> Inr (write_at LIBUSB_CONTROL_SETUP_SIZE bytes buf))
         else Inr buf)"

text \<open>
  The end of \<open>sync_async_control_transfer\<close>: for a request type with the IN bit, copy
  \<open>wLength\<close> bytes from the start of \<open>transfer->buffer\<close> to \<open>data\<close>; free both
  objects; return the \<open>rc\<close> of the submission.
\<close>

definition copy_response ::
  "u8 \<Rightarrow> u8 list option \<Rightarrow> u16 \<Rightarrow> libusb_transfer \<Rightarrow> fault + u8 list option" where
  "copy_response request_type data wLength transfer =
     (if request_type AND LIBUSB_ENDPOINT_IN \<noteq> 0
      then memcpy_dst data (take (unat wLength) (buffer transfer))
      else Inr data)"

text \<open>
  \<open>sync_async_control_transfer\<close>. Its trace starts with an entry for the call
  itself, holding the arguments of the setup packet. A null handle returns at once; a
  null \<open>data\<close> is only logged, so nothing here tests for it. The result of
  \<open>sync_transfer_wait_for_completion\<close> is not used, only the transfer it leaves.
\<close>

definition sync_async_control_transfer ::
  "ctrl_env \<Rightarrow> nat option \<Rightarrow> u8 \<Rightarrow> u8 \<Rightarrow> u16 \<Rightarrow> u16 \<Rightarrow> u8 list option \<Rightarrow> u16 \<Rightarrow> nat
     \<Rightarrow> (fault + int \<times> u8 list option) \<times> io_event list" where
  "sync_async_control_transfer env handle request_type bRequest wValue wIndex data wLength tmo =
     (let entry = ControlTransfer request_type bRequest wValue wIndex wLength;
          size = LIBUSB_CONTROL_SETUP_SIZE + unat wLength + 1
      in
      if handle = None then (Inr (LIBUSB_ERROR_INVALID_PARAM, data), [entry])
      else if \<not> alloc_ok env then
        (Inr (LIBUSB_ERROR_NO_MEM, data), [entry, LibusbAllocTransfer])
      else if \<not> malloc_ok env then
        (Inr (LIBUSB_ERROR_NO_MEM, data), [entry, LibusbAllocTransfer, Malloc size])
      else
        (case transfer_buffer env request_type bRequest wValue wIndex data wLength of
           Inl f \<Rightarrow> (Inl f, [entry, LibusbAllocTransfer, Malloc size])
         | Inr buf \<Rightarrow>
             (let transfer = libusb_fill_control_transfer handle buf wLength tmo;
                  rc = submit_rc env;
                  pre = [entry, LibusbAllocTransfer, Malloc size,
                         LibusbSubmitTransfer (take (xfer_length transfer) (buffer transfer))]
              in case sync_transfer_wait_for_completion (events env) None transfer of
                   (Inl f, tr) \<Rightarrow> (Inl f, pre @ tr)
                 | (Inr (_, transfer'), tr) \<Rightarrow>
                     (case copy_response request_type data wLength transfer' of
                        Inl f \<Rightarrow> (Inl f, pre @ tr)
                      | Inr data' \<Rightarrow>
                          (Inr (rc, data'), pre @ tr @ [Free, LibusbFreeTransfer])))))"

subsection \<open>libgreat commands\<close>

text \<open>
  The constants of protocol.h that the code uses; the header is not among the sources,
  so they are parameters.
\<close>

record greatfet_consts =
  GREATFET_LOGIC_MAX_DATA_OUT :: nat
  GREATFET_LIBGREAT_REQUEST_NUMBER :: u8
  GREATFET_LIBGREAT_VALUE_EXECUTE :: u16
  GREATFET_LIBGREAT_FLAG_SKIP_RESPONSE :: u16
  GREATFET_CLASS_LA :: u32
  GREATFET_LA_VERB_CONFIGURE :: u32
  GREATFET_LOGIC_DEFAULT_TIMEOUT :: nat

record libgreat_command_packet =
  class_number :: u32
  verb_number :: u32
  payload :: "u8 list"
  payload_length :: u32

text \<open>
  The bytes of the packed struct on a little-endian host; the payload array has
  exactly \<open>GREATFET_LOGIC_MAX_DATA_OUT\<close> bytes.
\<close>

definition packet_bytes :: "greatfet_consts \<Rightarrow> libgreat_command_packet \<Rightarrow> u8 list" where
  "packet_bytes K command =
     le32 (class_number command) @ le32 (verb_number command)
       @ take (GREATFET_LOGIC_MAX_DATA_OUT K)
           (payload command @ replicate (GREATFET_LOGIC_MAX_DATA_OUT K) 0)
       @ le32 (payload_length command)"

text \<open>
  \<open>greatfet_execute_libgreat_command\<close>, in its three parts. \<open>response_max_length\<close>
  is a \<open>size_t\<close> and is cut to 16 bits when passed as \<open>wLength\<close>, as
  \<open>command_length\<close> is. First the flags and the host-to-device transfer that carries
  the command:
\<close>

definition command_flags :: "greatfet_consts \<Rightarrow> nat \<Rightarrow> u16" where
  "command_flags K response_max_length =
     (if response_max_length = 0 then 0 OR GREATFET_LIBGREAT_FLAG_SKIP_RESPONSE K else 0)"

definition send_command ::
  "greatfet_consts \<Rightarrow> ctrl_env \<Rightarrow> sr_dev_inst \<Rightarrow> libgreat_command_packet \<Rightarrow> nat \<Rightarrow> nat
     \<Rightarrow> (fault + int \<times> u8 list option) \<times> io_event list" where
  "send_command K env_out device command response_max_length tmo =
     (let connection = conn device;
          flags = command_flags K response_max_length;
          command_length = (ucast (payload_length command + 8) :: u16)
      in sync_async_control_transfer env_out (devhdl connection)
           (LIBUSB_ENDPOINT_OUT OR LIBUSB_REQUEST_TYPE_VENDOR OR LIBUSB_RECIPIENT_ENDPOINT)
           (GREATFET_LIBGREAT_REQUEST_NUMBER K) (GREATFET_LIBGREAT_VALUE_EXECUTE K)
           flags (Some (packet_bytes K command)) command_length tmo)"

text \<open>The device-to-host transfer that reads the response:\<close>

definition read_response ::
  "greatfet_consts \<Rightarrow> ctrl_env \<Rightarrow> sr_dev_inst \<Rightarrow> u8 list option \<Rightarrow> nat \<Rightarrow> nat
     \<Rightarrow> (fault + int \<times> u8 list option) \<times> io_event list" where
  "read_response K env_in device response_buffer response_max_length tmo =
     sync_async_control_transfer env_in (devhdl (conn device))
       (LIBUSB_ENDPOINT_IN OR LIBUSB_REQUEST_TYPE_VENDOR OR LIBUSB_RECIPIENT_ENDPOINT)
       (GREATFET_LIBGREAT_REQUEST_NUMBER K) (GREATFET_LIBGREAT_VALUE_EXECUTE K)
       0 response_buffer (of_nat response_max_length) tmo"

text \<open>
  The function itself; \<open>env_out\<close> and \<open>env_in\<close> are the environments of the first
  and of the second control transfer.
\<close>

definition greatfet_execute_libgreat_command ::
  "greatfet_consts \<Rightarrow> ctrl_env \<Rightarrow> ctrl_env \<Rightarrow> sr_dev_inst \<Rightarrow> libgreat_command_packet
     \<Rightarrow> u8 list option \<Rightarrow> nat \<Rightarrow> nat \<Rightarrow> (fault + int \<times> u8 list option) \<times> io_event list" where
  "greatfet_execute_libgreat_command K env_out env_in device command response_buffer
       response_max_length tmo =
     (case send_command K env_out device command response_max_length tmo of
        (Inl f, tr) \<Rightarrow> (Inl f, tr)
      | (Inr (rc, _), tr) \<Rightarrow>
          if rc < 0 then (Inr (rc, response_buffer), tr)
          else if response_max_length = 0 then (Inr (0, response_buffer), tr)
          else
            (case read_response K env_in device response_buffer response_max_length tmo of
               (r, tr2) \<Rightarrow> (r, tr @ tr2)))"

text \<open>The entries of a trace that are control transfers, and those that are submissions.\<close>

fun is_control_transfer :: "io_event \<Rightarrow> bool" where
  "is_control_transfer (ControlTransfer _ _ _ _ _) = True"
| "is_control_transfer _ = False"

fun is_submission :: "io_event \<Rightarrow> bool" where
  "is_submission (LibusbSubmitTransfer _) = True"
| "is_submission _ = False"

definition control_transfers :: "io_event list \<Rightarrow> io_event list" where
  "control_transfers tr = filter is_control_transfer tr"

definition submissions :: "io_event list \<Rightarrow> io_event list" where
  "submissions tr = filter is_submission tr"

subsection \<open>The transfer pool\<close>

text \<open>
  \<open>greatfet_cancel_transfers\<close>. \<open>rc\<close> is an uninitialised local: \<open>None\<close> until the
  first assignment. \<open>cancel_rc i\<close> is what \<open>libusb_cancel_transfer\<close> returns for the
  call made at slot \<open>i\<close>. The second component lists the transfers on which
  \<open>libusb_cancel_transfer\<close> was called, in call order.
\<close>

fun cancel_loop :: "(nat \<Rightarrow> int) \<Rightarrow> nat \<Rightarrow> nat option list \<Rightarrow> int option \<Rightarrow> int option \<times> nat list" where
  "cancel_loop cancel_rc i [] rc = (rc, [])"
| "cancel_loop cancel_rc i (slot # rest) rc =
     (case slot of
        None \<Rightarrow> cancel_loop cancel_rc (Suc i) rest rc
      | Some t \<Rightarrow>
          (case cancel_loop cancel_rc (Suc i) rest (Some (cancel_rc i)) of
             (rc', calls) \<Rightarrow> (rc', t # calls)))"

definition greatfet_cancel_transfers :: "(nat \<Rightarrow> int) \<Rightarrow> sr_dev_inst \<Rightarrow> int option \<times> nat list" where
  "greatfet_cancel_transfers cancel_rc device =
     cancel_loop cancel_rc 0 (transfers (priv device)) None"

text \<open>
  \<open>greatfet_free_transfers\<close>: the slots after the loop, and the transfers handed to
  \<open>libusb_free_transfer\<close>, in call order.
\<close>

fun free_loop :: "nat option list \<Rightarrow> nat option list \<times> nat list" where
  "free_loop [] = ([], [])"
| "free_loop (slot # rest) =
     (case free_loop rest of
        (rest', calls) \<Rightarrow>
          (case slot of
             None \<Rightarrow> (slot # rest', calls)
           | Some t \<Rightarrow> (None # rest', t # calls)))"

definition greatfet_free_transfers :: "greatfet_context \<Rightarrow> int \<times> greatfet_context \<times> nat list" where
  "greatfet_free_transfers context =
     (case free_loop (transfers context) of
        (slots, calls) \<Rightarrow> (0, context\<lparr>transfers := slots\<rparr>, calls))"

subsection \<open>Configuring the device\<close>

text \<open>
  \<open>struct libgreat_configure_command_response\<close> is not packed: its three members lie
  at offsets 0, 4 and 8 and its size is 12. Its member \<open>endpoint\<close> is named
  \<open>response_endpoint\<close> here, the device context having a field \<open>endpoint\<close> too.
\<close>

record libgreat_configure_command_response =
  sample_rate_achieved_hz :: u32
  buffer_size :: u32
  response_endpoint :: u8

definition sizeof_configure_response :: nat where
  "sizeof_configure_response = 12"

text \<open>The \<open>memcpy\<close> of the response buffer over the struct, on a little-endian host.\<close>

definition decode_configure_response :: "u8 list \<Rightarrow> libgreat_configure_command_response" where
  "decode_configure_response bs =
     \<lparr>sample_rate_achieved_hz = from_le32 (take 4 bs),
      buffer_size = from_le32 (take 4 (drop 4 bs)),
      response_endpoint = bs ! 8\<rparr>"

text \<open>The packed \<open>struct libgreat_configure_command_payload\<close>, five bytes.\<close>

definition configure_payload_bytes :: "greatfet_context \<Rightarrow> u8 list" where
  "configure_payload_bytes context =
     le32 (ucast (sample_rate context)) @ [ucast (num_channels context)]"

text \<open>
  The packet that \<open>greatfet_configure\<close> builds: the payload array starts zeroed
  (designated initialiser) and receives the five payload bytes.
\<close>

definition configure_packet :: "greatfet_consts \<Rightarrow> greatfet_context \<Rightarrow> libgreat_command_packet" where
  "configure_packet K context =
     \<lparr>class_number = GREATFET_CLASS_LA K,
      verb_number = GREATFET_LA_VERB_CONFIGURE K,
      payload = write_at 0 (configure_payload_bytes context)
                  (replicate (GREATFET_LOGIC_MAX_DATA_OUT K) 0),
      payload_length = 5\<rparr>"

text \<open>
  \<open>greatfet_configure\<close>. \<open>stack\<close> gives the uninitialised content of the local
  \<open>response_buffer\<close>. That buffer is an array, so the pointer the command hands back
  is never null. The result of \<open>libusb_claim_interface\<close> is not looked at.
\<close>

definition greatfet_configure ::
  "greatfet_consts \<Rightarrow> ctrl_env \<Rightarrow> ctrl_env \<Rightarrow> (nat \<Rightarrow> u8) \<Rightarrow> sr_dev_inst
     \<Rightarrow> (fault + int \<times> sr_dev_inst) \<times> io_event list" where
  "greatfet_configure K env_out env_in stack device =
     (let context = priv device;
          response_buffer = map stack [0..<sizeof_configure_response];
          packet = configure_packet K context
      in case greatfet_execute_libgreat_command K env_out env_in device packet
                (Some response_buffer) sizeof_configure_response
                (GREATFET_LOGIC_DEFAULT_TIMEOUT K) of
           (Inl f, tr) \<Rightarrow> (Inl f, tr)
         | (Inr (rc, None), tr) \<Rightarrow> (Inl NullDeref, tr)
         | (Inr (rc, Some bytes), tr) \<Rightarrow>
             (let response = decode_configure_response bytes;
                  context' = context\<lparr>la_endpoint := response_endpoint response,
                                     endpoint := response_endpoint response\<rparr>
              in (Inr (rc, device\<lparr>priv := context'\<rparr>),
                  tr @ [LibusbClaimInterface 1])))"

subsection \<open>Sample values\<close>

text \<open>
  Values for the header's constants, a device, and environments in which a control
  transfer is submitted with result \<open>rc\<close> and then either completes with a status and
  bytes from the device, or sees \<open>libusb_handle_events_completed\<close> return an error, or
  sees the device handle closed.
\<close>

definition example_consts :: greatfet_consts where
  "example_consts =
     \<lparr>GREATFET_LOGIC_MAX_DATA_OUT = 16, GREATFET_LIBGREAT_REQUEST_NUMBER = 0x65,
      GREATFET_LIBGREAT_VALUE_EXECUTE = 0, GREATFET_LIBGREAT_FLAG_SKIP_RESPONSE = 1,
      GREATFET_CLASS_LA = 0x10D, GREATFET_LA_VERB_CONFIGURE = 0,
      GREATFET_LOGIC_DEFAULT_TIMEOUT = 1000\<rparr>"

definition example_device :: sr_dev_inst where
  "example_device =
     \<lparr>conn = \<lparr>devhdl = Some 1\<rparr>,
      priv = \<lparr>sample_rate = 24000000, num_channels = 8, la_endpoint = 0, endpoint = 0,
              transfers = []\<rparr>\<rparr>"

definition fill_byte :: "u8 \<Rightarrow> nat \<Rightarrow> u8" where
  "fill_byte b i = b"

definition completing :: "int \<Rightarrow> libusb_transfer_status \<Rightarrow> u8 list \<Rightarrow> ctrl_env" where
  "completing rc st bytes =
     \<lparr>alloc_ok = True, malloc_ok = True, heap_garbage = fill_byte 0xEE, submit_rc = rc,
      events = [\<lparr>ev_rc = 0, ev_done = Some (st, bytes), ev_closed = False\<rparr>]\<rparr>"

definition erroring :: "int \<Rightarrow> int \<Rightarrow> ctrl_env" where
  "erroring rc err =
     \<lparr>alloc_ok = True, malloc_ok = True, heap_garbage = fill_byte 0xEE, submit_rc = rc,
      events = [\<lparr>ev_rc = err, ev_done = None, ev_closed = False\<rparr>]\<rparr>"

definition closing :: "int \<Rightarrow> ctrl_env" where
  "closing rc =
     \<lparr>alloc_ok = True, malloc_ok = True, heap_garbage = fill_byte 0xEE, submit_rc = rc,
      events = [\<lparr>ev_rc = 0, ev_done = None, ev_closed = True\<rparr>]\<rparr>"

section \<open>Properties\<close>

subsection \<open>The wait loop and a single control transfer\<close>

lemma take_write_at: "take off (write_at off bytes buf) = take off buf"
  by (cases "off \<le> length buf") (simp_all add: write_at_def)

lemma control_transfers_simps:
  "control_transfers [] = []"
  "control_transfers (e # tr) =
     (if is_control_transfer e then e # control_transfers tr else control_transfers tr)"
  "control_transfers (tr @ tr') = control_transfers tr @ control_transfers tr'"
  by (simp_all add: control_transfers_def)

lemma submissions_simps:
  "submissions [] = []"
  "submissions (e # tr) = (if is_submission e then e # submissions tr else submissions tr)"
  "submissions (tr @ tr') = submissions tr @ submissions tr'"
  by (simp_all add: submissions_def)

lemma length_write_at: "length (write_at off bytes buf) = length buf"
  by (simp add: write_at_def)

text \<open>Handling events never touches the setup packet nor resizes the buffer.\<close>

lemma handle_events_buffer:
  "take LIBUSB_CONTROL_SETUP_SIZE (buffer (snd (libusb_handle_events_completed ev t))) =
     take LIBUSB_CONTROL_SETUP_SIZE (buffer t)
   \<and> length (buffer (snd (libusb_handle_events_completed ev t))) = length (buffer t)"
  by (simp add: libusb_handle_events_completed_def greatfet_libusb_transfer_complete_cb_def
      Let_def take_write_at length_write_at split: option.splits prod.splits)

lemma wait_buffer:
  "sync_transfer_wait_for_completion evs rc t = (Inr (rc', t'), tr) \<Longrightarrow>
     take LIBUSB_CONTROL_SETUP_SIZE (buffer t') = take LIBUSB_CONTROL_SETUP_SIZE (buffer t)
     \<and> length (buffer t') = length (buffer t)"
proof (induction evs arbitrary: rc t tr)
  case Nil
  then show ?case by (simp split: if_splits)
next
  case (Cons ev evs)
  obtain r t1 where step: "libusb_handle_events_completed ev t = (r, t1)"
    by (cases "libusb_handle_events_completed ev t")
  have buf1: "take LIBUSB_CONTROL_SETUP_SIZE (buffer t1) = take LIBUSB_CONTROL_SETUP_SIZE (buffer t)
      \<and> length (buffer t1) = length (buffer t)"
    using handle_events_buffer [of ev t] step by simp
  show ?case
  proof (cases "completed t \<noteq> 0")
    case True
    then show ?thesis using Cons.prems by simp
  next
    case False
    show ?thesis
    proof (cases "r < 0")
      case neg: True
      show ?thesis
      proof (cases "r = LIBUSB_ERROR_INTERRUPTED")
        case True
        then obtain tr1 where
          "sync_transfer_wait_for_completion evs (Some r) t1 = (Inr (rc', t'), tr1)"
          using Cons.prems False neg step by (auto split: prod.splits)
        then show ?thesis using Cons.IH buf1 by metis
      next
        case False
        then show ?thesis using Cons.prems \<open>\<not> completed t \<noteq> 0\<close> neg step buf1 by auto
      qed
    next
      case nonneg: False
      let ?t2 = "if dev_handle t1 = None
                 then t1\<lparr>status := LIBUSB_TRANSFER_NO_DEVICE, completed := 1\<rparr> else t1"
      obtain tr1 where
        "sync_transfer_wait_for_completion evs (Some r) ?t2 = (Inr (rc', t'), tr1)"
        using Cons.prems False nonneg step by (auto split: prod.splits)
      then have "take LIBUSB_CONTROL_SETUP_SIZE (buffer t') = take LIBUSB_CONTROL_SETUP_SIZE (buffer ?t2)
          \<and> length (buffer t') = length (buffer ?t2)"
        using Cons.IH by blast
      then show ?thesis using buf1 by simp
    qed
  qed
qed

text \<open>The wait loop neither enters a control transfer nor submits one.\<close>

lemma wait_trace:
  "control_transfers (snd (sync_transfer_wait_for_completion evs rc t)) = []
   \<and> submissions (snd (sync_transfer_wait_for_completion evs rc t)) = []"
proof (induction evs arbitrary: rc t)
  case Nil
  show ?case by (simp add: control_transfers_simps submissions_simps)
next
  case (Cons ev evs)
  obtain r t1 where step: "libusb_handle_events_completed ev t = (r, t1)"
    by (cases "libusb_handle_events_completed ev t")
  show ?case
    by (simp add: step Cons.IH control_transfers_simps submissions_simps split_beta)
qed


lemma wait_trace_result:
  "sync_transfer_wait_for_completion evs rc t = (r, tr) \<Longrightarrow>
     control_transfers tr = [] \<and> submissions tr = []"
  using wait_trace [of evs rc t] by simp

lemma sync_async_trace:
  "control_transfers
     (snd (sync_async_control_transfer env handle request_type bRequest wValue wIndex data wLength tmo)) =
     [ControlTransfer request_type bRequest wValue wIndex wLength]
   \<and> length (submissions
     (snd (sync_async_control_transfer env handle request_type bRequest wValue wIndex data wLength tmo)))
     \<le> 1"
  by (auto simp: sync_async_control_transfer_def Let_def control_transfers_simps submissions_simps
      split: sum.splits prod.splits dest: wait_trace_result)

lemma control_setup_length: "length (control_setup rt br wv wi wl) = LIBUSB_CONTROL_SETUP_SIZE"
  by (simp add: control_setup_def le16_def LIBUSB_CONTROL_SETUP_SIZE_def)

lemma transfer_buffer_shape:
  assumes "transfer_buffer env rt br wv wi data wl = Inr buf"
  shows "take LIBUSB_CONTROL_SETUP_SIZE buf = control_setup rt br wv wi wl
    \<and> length buf = LIBUSB_CONTROL_SETUP_SIZE + unat wl + 1"
proof -
  let ?raw = "map (heap_garbage env) [0..<LIBUSB_CONTROL_SETUP_SIZE + unat wl + 1]"
  let ?b0 = "libusb_fill_control_setup ?raw rt br wv wi wl"
  have len0: "length ?b0 = LIBUSB_CONTROL_SETUP_SIZE + unat wl + 1"
    by (simp add: libusb_fill_control_setup_def length_write_at)
  have pre0: "take LIBUSB_CONTROL_SETUP_SIZE ?b0 = control_setup rt br wv wi wl"
    using control_setup_length [of rt br wv wi wl]
    by (simp add: libusb_fill_control_setup_def write_at_def)
  have "buf = ?b0 \<or> (\<exists>bytes. buf = write_at LIBUSB_CONTROL_SETUP_SIZE bytes ?b0)"
    using assms by (auto simp: transfer_buffer_def Let_def split: if_splits sum.splits)
  then show ?thesis
    using len0 pre0 by (auto simp: take_write_at length_write_at)
qed

text \<open>What a device-to-host transfer hands back once it got past the allocations.\<close>

lemma sync_async_in_exact:
  assumes ret: "sync_async_control_transfer env (Some h) rt br wv wi data wl tmo = (Inr (rc, data'), tr)"
    and dir: "rt AND LIBUSB_ENDPOINT_IN \<noteq> 0"
    and ok: "alloc_ok env" "malloc_ok env"
  shows "\<exists>buf w t' trw. transfer_buffer env rt br wv wi data wl = Inr buf
     \<and> sync_transfer_wait_for_completion (events env) None
          (libusb_fill_control_transfer (Some h) buf wl tmo) = (Inr (w, t'), trw)
     \<and> take LIBUSB_CONTROL_SETUP_SIZE (buffer t') = control_setup rt br wv wi wl
     \<and> length (buffer t') = LIBUSB_CONTROL_SETUP_SIZE + unat wl + 1
     \<and> memcpy_dst data (take (unat wl) (buffer t')) = Inr data'
     \<and> rc = submit_rc env"
proof -
  from ret ok obtain buf where buf: "transfer_buffer env rt br wv wi data wl = Inr buf"
    by (auto simp: sync_async_control_transfer_def Let_def split: sum.splits)
  let ?t = "libusb_fill_control_transfer (Some h) buf wl tmo"
  from ret ok buf obtain w t' trw where
    wait: "sync_transfer_wait_for_completion (events env) None ?t = (Inr (w, t'), trw)"
    and copy: "copy_response rt data wl t' = Inr data'" and rc: "rc = submit_rc env"
    by (auto simp: sync_async_control_transfer_def Let_def split: sum.splits prod.splits)
  have shape: "take LIBUSB_CONTROL_SETUP_SIZE (buffer t') = control_setup rt br wv wi wl"
      "length (buffer t') = LIBUSB_CONTROL_SETUP_SIZE + unat wl + 1"
    using wait_buffer [OF wait] transfer_buffer_shape [OF buf]
    by (simp_all add: libusb_fill_control_transfer_def)
  have "memcpy_dst data (take (unat wl) (buffer t')) = Inr data'"
    using copy dir by (simp add: copy_response_def)
  then show ?thesis using buf wait shape rc by blast
qed

lemma memcpy_dst_nonempty:
  assumes "memcpy_dst data bytes = Inr data'" and "bytes \<noteq> []"
  shows "\<exists>d. data = Some d \<and> length bytes \<le> length d
     \<and> data' = Some (bytes @ drop (length bytes) d)"
  using assms by (auto simp: memcpy_dst_def split: option.splits if_splits)

lemma sync_async_early_return:
  assumes "handle = None \<or> \<not> alloc_ok env \<or> \<not> malloc_ok env"
  shows "\<exists>rc tr. sync_async_control_transfer env handle rt br wv wi data wl tmo = (Inr (rc, data), tr)
     \<and> rc < 0 \<and> submissions tr = []"
  using assms
  by (auto simp: sync_async_control_transfer_def Let_def submissions_simps
      LIBUSB_ERROR_INVALID_PARAM_def LIBUSB_ERROR_NO_MEM_def)

lemma memcpy_dst_length:
  "memcpy_dst (Some d) bytes = Inr data' \<Longrightarrow> \<exists>d'. data' = Some d' \<and> length d' = length d"
  by (auto simp: memcpy_dst_def split: if_splits)

lemma sync_async_buffer_length:
  assumes "sync_async_control_transfer env handle rt br wv wi (Some d) wl tmo = (Inr (rc, data'), tr)"
  shows "\<exists>d'. data' = Some d' \<and> length d' = length d"
proof -
  have "data' = Some d \<or> (\<exists>t. copy_response rt (Some d) wl t = Inr data')"
    using assms
    by (auto simp: sync_async_control_transfer_def Let_def split: if_splits sum.splits prod.splits)
  then show ?thesis
    by (auto simp: copy_response_def split: if_splits dest: memcpy_dst_length)
qed

text \<open>
  Claim C6. The claim is that a host-to-device control transfer called with a null
  device handle or a null payload pointer returns a parameter error before any transfer
  is allocated or submitted. The code returns at once for the null handle only; for a
  null \<open>data\<close> it logs and goes on. Evaluated on a non-null handle, request type
  \<open>0x42\<close> and \<open>data = NULL\<close>: with \<open>wLength = 0\<close> the transfer is allocated,
  submitted and waited for, and the call returns the result of the submission, 0; with
  \<open>wLength = 4\<close> the transfer and the buffer are allocated and \<open>memcpy\<close> then reads
  through the null pointer.
\<close>

theorem null_payload_not_rejected:
  "sync_async_control_transfer (completing 0 LIBUSB_TRANSFER_COMPLETED []) (Some 1)
       0x42 0x65 0 0 None 0 1000 =
     (Inr (0, None),
      [ControlTransfer 0x42 0x65 0 0 0, LibusbAllocTransfer, Malloc 9,
       LibusbSubmitTransfer [0x42, 0x65, 0, 0, 0, 0, 0, 0], LibusbHandleEvents, Free,
       LibusbFreeTransfer])
   \<and> sync_async_control_transfer (completing 0 LIBUSB_TRANSFER_COMPLETED []) (Some 1)
       0x42 0x65 0 0 None 4 1000 =
     (Inl NullDeref, [ControlTransfer 0x42 0x65 0 0 4, LibusbAllocTransfer, Malloc 13])"
  by code_simp

text \<open>
  Claim C2. The claim is that an error met by the wait loop reaches the caller of the
  synchronous transfer as an error code, a device-removed error when the handle became
  null. Evaluated on a device-to-host transfer whose submission returned 0: when
  \<open>libusb_handle_events_completed\<close> returns \<open>LIBUSB_ERROR_IO\<close>, the wait cancels
  the transfer and returns that code, and \<open>sync_async_control_transfer\<close> returns 0;
  when the handle is closed during the wait, the loop sets the status to
  \<open>LIBUSB_TRANSFER_NO_DEVICE\<close> and the flag to 1 and ends, the wait returns 0, and
  \<open>sync_async_control_transfer\<close> returns 0.
\<close>

theorem wait_errors_not_propagated:
  "sync_transfer_wait_for_completion (events (erroring 0 LIBUSB_ERROR_IO)) None
       (libusb_fill_control_transfer (Some 1)
          [0xC2, 0x65, 0, 0, 0, 0, 2, 0, 0xEE, 0xEE, 0xEE] 2 1000) =
     (Inr (Some LIBUSB_ERROR_IO,
           libusb_fill_control_transfer (Some 1)
             [0xC2, 0x65, 0, 0, 0, 0, 2, 0, 0xEE, 0xEE, 0xEE] 2 1000),
      [LibusbHandleEvents, LibusbCancelTransfer])
   \<and> fst (sync_async_control_transfer (erroring 0 LIBUSB_ERROR_IO) (Some 1)
          0xC2 0x65 0 0 (Some [7, 7]) 2 1000) = Inr (0, Some [0xC2, 0x65])
   \<and> sync_transfer_wait_for_completion (events (closing 0)) None
       (libusb_fill_control_transfer (Some 1)
          [0xC2, 0x65, 0, 0, 0, 0, 2, 0, 0xEE, 0xEE, 0xEE] 2 1000) =
     (Inr (Some 0,
           (libusb_fill_control_transfer (Some 1)
              [0xC2, 0x65, 0, 0, 0, 0, 2, 0, 0xEE, 0xEE, 0xEE] 2 1000)
             \<lparr>dev_handle := None, status := LIBUSB_TRANSFER_NO_DEVICE, completed := 1\<rparr>),
      [LibusbHandleEvents])
   \<and> fst (sync_async_control_transfer (closing 0) (Some 1)
          0xC2 0x65 0 0 (Some [7, 7]) 2 1000) = Inr (0, Some [0xC2, 0x65])"
  by code_simp

text \<open>
  Claim C7. A device-to-host control transfer of nonzero \<open>wLength\<close> that got past the
  handle check and the allocations and returns has copied to the caller exactly the
  first \<open>wLength\<close> bytes of the raw transfer buffer as the wait left it, starting at
  offset 0, where the setup packet lies; the caller's bytes behind \<open>wLength\<close> are
  untouched. So the caller's first bytes, up to the setup size, are the setup bytes and
  not device data, and the number of bytes copied is \<open>wLength\<close> whatever actual
  length and status the transfer ended with.
\<close>

theorem in_transfer_copies_from_buffer_start:
  assumes "sync_async_control_transfer env (Some h) request_type bRequest wValue wIndex data
             wLength tmo = (Inr (rc, data'), tr)"
    and "request_type AND LIBUSB_ENDPOINT_IN \<noteq> 0"
    and "wLength \<noteq> 0"
    and "alloc_ok env" and "malloc_ok env"
  shows "\<exists>d buf w t' trw. data = Some d \<and> unat wLength \<le> length d
     \<and> transfer_buffer env request_type bRequest wValue wIndex data wLength = Inr buf
     \<and> sync_transfer_wait_for_completion (events env) None
          (libusb_fill_control_transfer (Some h) buf wLength tmo) = (Inr (w, t'), trw)
     \<and> take LIBUSB_CONTROL_SETUP_SIZE (buffer t') =
          control_setup request_type bRequest wValue wIndex wLength
     \<and> data' = Some (take (unat wLength) (buffer t') @ drop (unat wLength) d)
     \<and> take (min LIBUSB_CONTROL_SETUP_SIZE (unat wLength))
          (take (unat wLength) (buffer t') @ drop (unat wLength) d) =
        take (min LIBUSB_CONTROL_SETUP_SIZE (unat wLength))
          (control_setup request_type bRequest wValue wIndex wLength)"
proof -
  from sync_async_in_exact [OF assms(1,2,4,5)] obtain buf w t' trw where
    buf: "transfer_buffer env request_type bRequest wValue wIndex data wLength = Inr buf"
    and wait: "sync_transfer_wait_for_completion (events env) None
          (libusb_fill_control_transfer (Some h) buf wLength tmo) = (Inr (w, t'), trw)"
    and hdr: "take LIBUSB_CONTROL_SETUP_SIZE (buffer t') =
          control_setup request_type bRequest wValue wIndex wLength"
    and len: "length (buffer t') = LIBUSB_CONTROL_SETUP_SIZE + unat wLength + 1"
    and copy: "memcpy_dst data (take (unat wLength) (buffer t')) = Inr data'"
    by blast
  let ?n = "unat wLength"
  have n0: "?n \<noteq> 0" using assms(3) by (simp add: unat_eq_0)
  have tl: "length (take ?n (buffer t')) = ?n" using len by simp
  then have ne: "take ?n (buffer t') \<noteq> []" using n0 by auto
  from memcpy_dst_nonempty [OF copy ne] tl obtain d where
    d: "data = Some d" "?n \<le> length d"
       "data' = Some (take ?n (buffer t') @ drop ?n d)"
    by auto
  have "take (min LIBUSB_CONTROL_SETUP_SIZE ?n) (take ?n (buffer t') @ drop ?n d) =
      take (min LIBUSB_CONTROL_SETUP_SIZE ?n) (take ?n (buffer t'))"
    using tl by simp
  also have "\<dots> = take (min LIBUSB_CONTROL_SETUP_SIZE ?n) (take LIBUSB_CONTROL_SETUP_SIZE (buffer t'))"
    by (simp add: min_def)
  finally have pre: "take (min LIBUSB_CONTROL_SETUP_SIZE ?n) (take ?n (buffer t') @ drop ?n d) =
      take (min LIBUSB_CONTROL_SETUP_SIZE ?n)
        (control_setup request_type bRequest wValue wIndex wLength)"
    using hdr by simp
  show ?thesis using d buf wait hdr pre by blast
qed

text \<open>
  A run of it: twelve bytes are requested into a region of fourteen and the device
  delivers two, \<open>1, 2\<close>, so the actual length is 2. Twelve bytes are copied all the
  same: the eight setup bytes, the two device bytes and two bytes of the uninitialised
  buffer; the last two bytes of the region stay.
\<close>

theorem in_transfer_copies_from_buffer_start_witness:
  "sync_async_control_transfer (completing 0 LIBUSB_TRANSFER_COMPLETED [1, 2])
       (Some 1) 0xC2 0x65 0 0 (Some [7, 7, 7, 7, 7, 7, 7, 7, 7, 7, 7, 7, 7, 7]) 12 1000 =
     (Inr (0, Some [0xC2, 0x65, 0, 0, 0, 0, 12, 0, 1, 2, 0xEE, 0xEE, 7, 7]),
      [ControlTransfer 0xC2 0x65 0 0 12, LibusbAllocTransfer, Malloc 21,
       LibusbSubmitTransfer [0xC2, 0x65, 0, 0, 0, 0, 12, 0, 0xEE, 0xEE, 0xEE, 0xEE, 0xEE, 0xEE,
         0xEE, 0xEE, 0xEE, 0xEE, 0xEE, 0xEE],
       LibusbHandleEvents, Free, LibusbFreeTransfer])
   \<and> sync_transfer_wait_for_completion
       (events (completing 0 LIBUSB_TRANSFER_COMPLETED [1, 2])) None
       (libusb_fill_control_transfer (Some 1)
          [0xC2, 0x65, 0, 0, 0, 0, 12, 0, 0xEE, 0xEE, 0xEE, 0xEE, 0xEE, 0xEE, 0xEE, 0xEE, 0xEE,
           0xEE, 0xEE, 0xEE, 0xEE] 12 1000) =
     (Inr (Some 0,
           \<lparr>dev_handle = Some 1, status = LIBUSB_TRANSFER_COMPLETED, xfer_length = 20,
            actual_length = 2,
            buffer = [0xC2, 0x65, 0, 0, 0, 0, 12, 0, 1, 2, 0xEE, 0xEE, 0xEE, 0xEE, 0xEE, 0xEE,
                      0xEE, 0xEE, 0xEE, 0xEE, 0xEE],
            timeout = 1000, completed = 1\<rparr>),
      [LibusbHandleEvents])
   \<and> (\<exists>d buf w t' trw. Some [7, 7, 7, 7, 7, 7, 7, 7, 7, 7, 7, 7, 7, 7] = Some d
        \<and> unat (12 :: u16) \<le> length d
        \<and> transfer_buffer (completing 0 LIBUSB_TRANSFER_COMPLETED [1, 2]) 0xC2 0x65 0 0
             (Some [7, 7, 7, 7, 7, 7, 7, 7, 7, 7, 7, 7, 7, 7]) 12 = Inr buf
        \<and> sync_transfer_wait_for_completion
             (events (completing 0 LIBUSB_TRANSFER_COMPLETED [1, 2])) None
             (libusb_fill_control_transfer (Some 1) buf 12 1000) = (Inr (w, t'), trw)
        \<and> take LIBUSB_CONTROL_SETUP_SIZE (buffer t') = control_setup 0xC2 0x65 0 0 12
        \<and> Some [0xC2, 0x65, 0, 0, 0, 0, 12, 0, 1, 2, 0xEE, 0xEE, 7, 7] =
            Some (take (unat (12 :: u16)) (buffer t') @ drop (unat (12 :: u16)) d))"
proof -
  let ?env = "completing 0 LIBUSB_TRANSFER_COMPLETED [1, 2]"
  have run: "sync_async_control_transfer ?env
       (Some 1) 0xC2 0x65 0 0 (Some [7, 7, 7, 7, 7, 7, 7, 7, 7, 7, 7, 7, 7, 7]) 12 1000 =
     (Inr (0, Some [0xC2, 0x65, 0, 0, 0, 0, 12, 0, 1, 2, 0xEE, 0xEE, 7, 7]),
      [ControlTransfer 0xC2 0x65 0 0 12, LibusbAllocTransfer, Malloc 21,
       LibusbSubmitTransfer [0xC2, 0x65, 0, 0, 0, 0, 12, 0, 0xEE, 0xEE, 0xEE, 0xEE, 0xEE, 0xEE,
         0xEE, 0xEE, 0xEE, 0xEE, 0xEE, 0xEE],
       LibusbHandleEvents, Free, LibusbFreeTransfer])"
    by code_simp
  have wait: "sync_transfer_wait_for_completion (events ?env) None
       (libusb_fill_control_transfer (Some 1)
          [0xC2, 0x65, 0, 0, 0, 0, 12, 0, 0xEE, 0xEE, 0xEE, 0xEE, 0xEE, 0xEE, 0xEE, 0xEE, 0xEE,
           0xEE, 0xEE, 0xEE, 0xEE] 12 1000) =
     (Inr (Some 0,
           \<lparr>dev_handle = Some 1, status = LIBUSB_TRANSFER_COMPLETED, xfer_length = 20,
            actual_length = 2,
            buffer = [0xC2, 0x65, 0, 0, 0, 0, 12, 0, 1, 2, 0xEE, 0xEE, 0xEE, 0xEE, 0xEE, 0xEE,
                      0xEE, 0xEE, 0xEE, 0xEE, 0xEE],
            timeout = 1000, completed = 1\<rparr>),
      [LibusbHandleEvents])"
    by code_simp
  have dir: "(0xC2 :: u8) AND LIBUSB_ENDPOINT_IN \<noteq> 0"
    by (simp add: LIBUSB_ENDPOINT_IN_def)
  have len: "(12 :: u16) \<noteq> 0" by simp
  have ok: "alloc_ok ?env" "malloc_ok ?env" by (simp_all add: completing_def)
  from in_transfer_copies_from_buffer_start [OF run dir len ok]
  have "\<exists>d buf w t' trw. Some [7, 7, 7, 7, 7, 7, 7, 7, 7, 7, 7, 7, 7, 7] = Some d
        \<and> unat (12 :: u16) \<le> length d
        \<and> transfer_buffer ?env 0xC2 0x65 0 0
             (Some [7, 7, 7, 7, 7, 7, 7, 7, 7, 7, 7, 7, 7, 7]) 12 = Inr buf
        \<and> sync_transfer_wait_for_completion (events ?env) None
             (libusb_fill_control_transfer (Some 1) buf 12 1000) = (Inr (w, t'), trw)
        \<and> take LIBUSB_CONTROL_SETUP_SIZE (buffer t') = control_setup 0xC2 0x65 0 0 12
        \<and> Some [0xC2, 0x65, 0, 0, 0, 0, 12, 0, 1, 2, 0xEE, 0xEE, 7, 7] =
            Some (take (unat (12 :: u16)) (buffer t') @ drop (unat (12 :: u16)) d)"
    by blast
  then show ?thesis using run wait by blast
qed

text \<open>
  Claim C4, as amended. A device-to-host control transfer leaves the caller's buffer
  as it was when it returns before submitting anything: on a null handle or when an
  allocation failed; the result is then negative. Once the transfer was submitted and
  the call returns, the copy back takes place whether the transfer completed or not:
  neither its status nor the completion flag nor any result is tested, the first
  \<open>wLength\<close> bytes behind \<open>data\<close> are replaced by \<open>wLength\<close> consecutive bytes of
  the transfer's buffer as the wait left it, the bytes behind them are untouched, and
  the value returned is the result of the submission. With \<open>wLength = 0\<close> nothing is
  copied.
\<close>

theorem in_transfer_buffer_written_back:
  assumes "sync_async_control_transfer env handle request_type bRequest wValue wIndex data
             wLength tmo = (Inr (rc, data'), tr)"
    and "request_type AND LIBUSB_ENDPOINT_IN \<noteq> 0"
  shows "(if handle = None \<or> \<not> alloc_ok env \<or> \<not> malloc_ok env
          then data' = data \<and> submissions tr = [] \<and> rc < 0
          else if wLength = 0 then data' = data \<and> rc = submit_rc env
          else \<exists>d buf w t' trw off. data = Some d \<and> unat wLength \<le> length d
                 \<and> transfer_buffer env request_type bRequest wValue wIndex data wLength = Inr buf
                 \<and> sync_transfer_wait_for_completion (events env) None
                      (libusb_fill_control_transfer handle buf wLength tmo) = (Inr (w, t'), trw)
                 \<and> off + unat wLength \<le> length (buffer t')
                 \<and> data' = Some (take (unat wLength) (drop off (buffer t'))
                                 @ drop (unat wLength) d)
                 \<and> rc = submit_rc env)"
proof (cases "handle = None \<or> \<not> alloc_ok env \<or> \<not> malloc_ok env")
  case True
  then show ?thesis
    using sync_async_early_return [OF True, of request_type bRequest wValue wIndex data wLength tmo]
      assms(1) by auto
next
  case False
  then obtain h where h: "handle = Some h" and ok: "alloc_ok env" "malloc_ok env"
    by auto
  from sync_async_in_exact [OF assms(1) [unfolded h] assms(2) ok] obtain buf w t' trw where
    buf: "transfer_buffer env request_type bRequest wValue wIndex data wLength = Inr buf"
    and wait: "sync_transfer_wait_for_completion (events env) None
          (libusb_fill_control_transfer (Some h) buf wLength tmo) = (Inr (w, t'), trw)"
    and len: "length (buffer t') = LIBUSB_CONTROL_SETUP_SIZE + unat wLength + 1"
    and copy: "memcpy_dst data (take (unat wLength) (buffer t')) = Inr data'"
    and rc: "rc = submit_rc env"
    by blast
  show ?thesis
  proof (cases "wLength = 0")
    case True
    then have "data' = data" using copy by (simp add: memcpy_dst_def)
    then show ?thesis using False True rc by auto
  next
    case nz: False
    let ?n = "unat wLength"
    have n0: "?n \<noteq> 0" using nz by (simp add: unat_eq_0)
    have tl: "length (take ?n (buffer t')) = ?n" using len by simp
    then have ne: "take ?n (buffer t') \<noteq> []" using n0 by auto
    from memcpy_dst_nonempty [OF copy ne] tl obtain d where
      d: "data = Some d" "?n \<le> length d"
         "data' = Some (take ?n (drop 0 (buffer t')) @ drop ?n d)"
      by auto
    have off: "0 + ?n \<le> length (buffer t')" using len by simp
    have "\<exists>d buf w t' trw off. data = Some d \<and> ?n \<le> length d
                 \<and> transfer_buffer env request_type bRequest wValue wIndex data wLength = Inr buf
                 \<and> sync_transfer_wait_for_completion (events env) None
                      (libusb_fill_control_transfer handle buf wLength tmo) = (Inr (w, t'), trw)
                 \<and> off + ?n \<le> length (buffer t')
                 \<and> data' = Some (take ?n (drop off (buffer t')) @ drop ?n d)
                 \<and> rc = submit_rc env"
      using d buf wait [folded h] off rc by blast
    then show ?thesis using False nz by (simp only: if_False)
  qed
qed

text \<open>
  Two runs of it, on a region of fourteen bytes \<open>7\<close> and \<open>wLength = 12\<close>: a transfer
  whose submission and whose event handling both fail, after which twelve bytes of the
  region are replaced, and the same call on a null handle, which leaves the region alone.
\<close>

theorem in_transfer_buffer_written_back_witness:
  "sync_async_control_transfer (erroring LIBUSB_ERROR_IO LIBUSB_ERROR_IO) (Some 1)
       0xC2 0x65 0 0 (Some [7, 7, 7, 7, 7, 7, 7, 7, 7, 7, 7, 7, 7, 7]) 12 1000 =
     (Inr (- 1, Some [0xC2, 0x65, 0, 0, 0, 0, 12, 0, 0xEE, 0xEE, 0xEE, 0xEE, 7, 7]),
      [ControlTransfer 0xC2 0x65 0 0 12, LibusbAllocTransfer, Malloc 21,
       LibusbSubmitTransfer [0xC2, 0x65, 0, 0, 0, 0, 12, 0, 0xEE, 0xEE, 0xEE, 0xEE, 0xEE, 0xEE,
         0xEE, 0xEE, 0xEE, 0xEE, 0xEE, 0xEE],
       LibusbHandleEvents, LibusbCancelTransfer, Free, LibusbFreeTransfer])
   \<and> (\<exists>d buf w t' trw off. Some [7, 7, 7, 7, 7, 7, 7, 7, 7, 7, 7, 7, 7, 7] = Some d
        \<and> unat (12 :: u16) \<le> length d
        \<and> transfer_buffer (erroring LIBUSB_ERROR_IO LIBUSB_ERROR_IO) 0xC2 0x65 0 0
             (Some [7, 7, 7, 7, 7, 7, 7, 7, 7, 7, 7, 7, 7, 7]) 12 = Inr buf
        \<and> sync_transfer_wait_for_completion
             (events (erroring LIBUSB_ERROR_IO LIBUSB_ERROR_IO)) None
             (libusb_fill_control_transfer (Some 1) buf 12 1000) = (Inr (w, t'), trw)
        \<and> off + unat (12 :: u16) \<le> length (buffer t')
        \<and> Some [0xC2, 0x65, 0, 0, 0, 0, 12, 0, 0xEE, 0xEE, 0xEE, 0xEE, 7, 7] =
            Some (take (unat (12 :: u16)) (drop off (buffer t')) @ drop (unat (12 :: u16)) d)
        \<and> - 1 = submit_rc (erroring LIBUSB_ERROR_IO LIBUSB_ERROR_IO))
   \<and> sync_async_control_transfer (erroring LIBUSB_ERROR_IO LIBUSB_ERROR_IO) None
       0xC2 0x65 0 0 (Some [7, 7, 7, 7, 7, 7, 7, 7, 7, 7, 7, 7, 7, 7]) 12 1000 =
     (Inr (LIBUSB_ERROR_INVALID_PARAM, Some [7, 7, 7, 7, 7, 7, 7, 7, 7, 7, 7, 7, 7, 7]),
      [ControlTransfer 0xC2 0x65 0 0 12])
   \<and> submissions [ControlTransfer 0xC2 0x65 0 0 12] = []
   \<and> LIBUSB_ERROR_INVALID_PARAM < 0"
proof -
  let ?env = "erroring LIBUSB_ERROR_IO LIBUSB_ERROR_IO"
  have run: "sync_async_control_transfer ?env (Some 1)
       0xC2 0x65 0 0 (Some [7, 7, 7, 7, 7, 7, 7, 7, 7, 7, 7, 7, 7, 7]) 12 1000 =
     (Inr (- 1, Some [0xC2, 0x65, 0, 0, 0, 0, 12, 0, 0xEE, 0xEE, 0xEE, 0xEE, 7, 7]),
      [ControlTransfer 0xC2 0x65 0 0 12, LibusbAllocTransfer, Malloc 21,
       LibusbSubmitTransfer [0xC2, 0x65, 0, 0, 0, 0, 12, 0, 0xEE, 0xEE, 0xEE, 0xEE, 0xEE, 0xEE,
         0xEE, 0xEE, 0xEE, 0xEE, 0xEE, 0xEE],
       LibusbHandleEvents, LibusbCancelTransfer, Free, LibusbFreeTransfer])"
    by code_simp
  have early: "sync_async_control_transfer ?env None
       0xC2 0x65 0 0 (Some [7, 7, 7, 7, 7, 7, 7, 7, 7, 7, 7, 7, 7, 7]) 12 1000 =
     (Inr (LIBUSB_ERROR_INVALID_PARAM, Some [7, 7, 7, 7, 7, 7, 7, 7, 7, 7, 7, 7, 7, 7]),
      [ControlTransfer 0xC2 0x65 0 0 12])"
    by (simp add: sync_async_control_transfer_def)
  have dir: "(0xC2 :: u8) AND LIBUSB_ENDPOINT_IN \<noteq> 0"
    by (simp add: LIBUSB_ENDPOINT_IN_def)
  have ok: "alloc_ok ?env" "malloc_ok ?env" by (simp_all add: erroring_def)
  have len: "(12 :: u16) \<noteq> 0" by simp
  note a = in_transfer_buffer_written_back [OF run dir]
  note b = in_transfer_buffer_written_back [OF early dir]
  have a': "\<exists>d buf w t' trw off. Some [7, 7, 7, 7, 7, 7, 7, 7, 7, 7, 7, 7, 7, 7] = Some d
        \<and> unat (12 :: u16) \<le> length d
        \<and> transfer_buffer ?env 0xC2 0x65 0 0
             (Some [7, 7, 7, 7, 7, 7, 7, 7, 7, 7, 7, 7, 7, 7]) 12 = Inr buf
        \<and> sync_transfer_wait_for_completion (events ?env) None
             (libusb_fill_control_transfer (Some 1) buf 12 1000) = (Inr (w, t'), trw)
        \<and> off + unat (12 :: u16) \<le> length (buffer t')
        \<and> Some [0xC2, 0x65, 0, 0, 0, 0, 12, 0, 0xEE, 0xEE, 0xEE, 0xEE, 7, 7] =
            Some (take (unat (12 :: u16)) (drop off (buffer t')) @ drop (unat (12 :: u16)) d)
        \<and> - 1 = submit_rc ?env"
    using a ok len by (simp only: option.distinct simp_thms if_False)
  have b': "submissions [ControlTransfer 0xC2 0x65 0 0 12] = [] \<and> LIBUSB_ERROR_INVALID_PARAM < 0"
    using b by simp
  show ?thesis using run early a' b' by blast
qed

text \<open>
  Claim C4, as stated, fails: this device-to-host transfer fails at submission and in
  the wait, returns \<open>LIBUSB_ERROR_IO\<close>, never completed, and twelve of the caller's
  fourteen bytes \<open>7\<close> were overwritten all the same.
\<close>

theorem in_transfer_failure_changes_buffer:
  "fst (sync_async_control_transfer (erroring LIBUSB_ERROR_IO LIBUSB_ERROR_IO) (Some 1)
          0xC2 0x65 0 0 (Some [7, 7, 7, 7, 7, 7, 7, 7, 7, 7, 7, 7, 7, 7]) 12 1000) =
     Inr (- 1, Some [0xC2, 0x65, 0, 0, 0, 0, 12, 0, 0xEE, 0xEE, 0xEE, 0xEE, 7, 7])
   \<and> LIBUSB_ERROR_IO = - 1"
  by code_simp

subsection \<open>Executing a command\<close>

lemma send_command_trace:
  "control_transfers (snd (send_command K env_out device command response_max_length tmo)) =
     [ControlTransfer
        (LIBUSB_ENDPOINT_OUT OR LIBUSB_REQUEST_TYPE_VENDOR OR LIBUSB_RECIPIENT_ENDPOINT)
        (GREATFET_LIBGREAT_REQUEST_NUMBER K) (GREATFET_LIBGREAT_VALUE_EXECUTE K)
        (if response_max_length = 0 then GREATFET_LIBGREAT_FLAG_SKIP_RESPONSE K else 0)
        (ucast (payload_length command + 8))]
   \<and> length (submissions (snd (send_command K env_out device command response_max_length tmo)))
       \<le> 1"
  using sync_async_trace [of env_out "devhdl (conn device)"
      "LIBUSB_ENDPOINT_OUT OR LIBUSB_REQUEST_TYPE_VENDOR OR LIBUSB_RECIPIENT_ENDPOINT"
      "GREATFET_LIBGREAT_REQUEST_NUMBER K" "GREATFET_LIBGREAT_VALUE_EXECUTE K"
      "command_flags K response_max_length" "Some (packet_bytes K command)"
      "ucast (payload_length command + 8)" tmo]
  by (simp add: send_command_def Let_def command_flags_def)

lemma read_response_trace:
  "control_transfers (snd (read_response K env_in device response_buffer response_max_length tmo)) =
     [ControlTransfer
        (LIBUSB_ENDPOINT_IN OR LIBUSB_REQUEST_TYPE_VENDOR OR LIBUSB_RECIPIENT_ENDPOINT)
        (GREATFET_LIBGREAT_REQUEST_NUMBER K) (GREATFET_LIBGREAT_VALUE_EXECUTE K) 0
        (of_nat response_max_length)]
   \<and> length (submissions (snd (read_response K env_in device response_buffer response_max_length tmo)))
       \<le> 1"
  unfolding read_response_def by (rule sync_async_trace)

lemma execute_buffer_length:
  assumes "fst (greatfet_execute_libgreat_command K env_out env_in device command (Some d)
                  response_max_length tmo) = Inr (rc, buf)"
  shows "\<exists>d'. buf = Some d' \<and> length d' = length d"
proof -
  obtain r2 tr2 where inn:
    "read_response K env_in device (Some d) response_max_length tmo = (r2, tr2)"
    by (cases "read_response K env_in device (Some d) response_max_length tmo")
  have "buf = Some d \<or> r2 = Inr (rc, buf)"
    using assms
    by (auto simp: greatfet_execute_libgreat_command_def inn split: sum.splits prod.splits if_splits)
  then show ?thesis
    using inn sync_async_buffer_length [of env_in "devhdl (conn device)" _ _ _ _ d _ tmo rc buf tr2]
    by (auto simp: read_response_def)
qed

text \<open>
  What \<open>greatfet_execute_libgreat_command\<close> enters, by the value the host-to-device
  transfer returned: that transfer alone when it did not return, returned a negative
  code, or \<open>response_max_length\<close> is 0; that one and the device-to-host one otherwise.
  The \<open>wIndex\<close> of the first carries the flags.
\<close>

lemma execute_control_transfers_by_result:
  "control_transfers
     (snd (greatfet_execute_libgreat_command K env_out env_in device command response_buffer
             response_max_length tmo)) =
     (let out_entry =
            ControlTransfer
              (LIBUSB_ENDPOINT_OUT OR LIBUSB_REQUEST_TYPE_VENDOR OR LIBUSB_RECIPIENT_ENDPOINT)
              (GREATFET_LIBGREAT_REQUEST_NUMBER K) (GREATFET_LIBGREAT_VALUE_EXECUTE K)
              (if response_max_length = 0 then GREATFET_LIBGREAT_FLAG_SKIP_RESPONSE K else 0)
              (ucast (payload_length command + 8));
          in_entry =
            ControlTransfer
              (LIBUSB_ENDPOINT_IN OR LIBUSB_REQUEST_TYPE_VENDOR OR LIBUSB_RECIPIENT_ENDPOINT)
              (GREATFET_LIBGREAT_REQUEST_NUMBER K) (GREATFET_LIBGREAT_VALUE_EXECUTE K) 0
              (of_nat response_max_length)
      in case fst (send_command K env_out device command response_max_length tmo) of
           Inl f \<Rightarrow> [out_entry]
         | Inr (rc, d) \<Rightarrow>
             if rc < 0 then [out_entry]
             else if response_max_length = 0 then [out_entry]
             else [out_entry, in_entry])
   \<and> length (submissions
       (snd (greatfet_execute_libgreat_command K env_out env_in device command response_buffer
               response_max_length tmo)))
     \<le> length (control_transfers
       (snd (greatfet_execute_libgreat_command K env_out env_in device command response_buffer
               response_max_length tmo)))
   \<and> fst (greatfet_execute_libgreat_command K env_out env_in device command response_buffer
             response_max_length tmo) =
     (case fst (send_command K env_out device command response_max_length tmo) of
        Inl f \<Rightarrow> Inl f
      | Inr (rc, d) \<Rightarrow>
          if rc < 0 then Inr (rc, response_buffer)
          else if response_max_length = 0 then Inr (0, response_buffer)
          else fst (read_response K env_in device response_buffer response_max_length tmo))"
proof -
  obtain r1 tr1 where out: "send_command K env_out device command response_max_length tmo = (r1, tr1)"
    by (cases "send_command K env_out device command response_max_length tmo")
  obtain r2 tr2 where inn:
    "read_response K env_in device response_buffer response_max_length tmo = (r2, tr2)"
    by (cases "read_response K env_in device response_buffer response_max_length tmo")
  note t1 = send_command_trace [of K env_out device command response_max_length tmo, unfolded out]
  note t2 = read_response_trace [of K env_in device response_buffer response_max_length tmo,
      unfolded inn]
  show ?thesis
  proof (cases r1)
    case (Inl f)
    then show ?thesis
      using t1 by (simp add: greatfet_execute_libgreat_command_def out Let_def)
  next
    case (Inr p)
    obtain rc d where p: "p = (rc, d)" by (cases p)
    show ?thesis
      using t1 t2 Inr p
      by (simp add: greatfet_execute_libgreat_command_def out inn Let_def
          control_transfers_simps submissions_simps)
  qed
qed

text \<open>
  Claim C5. The claim is that a command issues one control transfer, the outbound one,
  when the outbound stage fails, and no inbound transfer then. The code tells a failed
  outbound stage by the value \<open>sync_async_control_transfer\<close> returns, which is the
  result of the submission only. Evaluated on a command with \<open>response_max_length = 4\<close>
  whose outbound transfer is submitted with result 0 and then fails: when it ends with
  status \<open>LIBUSB_TRANSFER_STALL\<close> the outbound call returns 0 and the command goes on
  to the inbound transfer, two control transfers and two submissions in all, and
  returns 0; the same two control transfers are entered when the event handling of the
  outbound transfer returns \<open>LIBUSB_ERROR_IO\<close> and when the device handle is closed
  during its wait.
\<close>

theorem inbound_issued_after_failed_outbound:
  "greatfet_execute_libgreat_command example_consts
       (completing 0 LIBUSB_TRANSFER_STALL [])
       (completing 0 LIBUSB_TRANSFER_COMPLETED [1, 2, 3, 4]) example_device
       \<lparr>class_number = 0, verb_number = 1, payload = [], payload_length = 0\<rparr>
       (Some [0, 0, 0, 0]) 4 1000 =
     (Inr (0, Some [0xC2, 0x65, 0, 0]),
      [ControlTransfer 0x42 0x65 0 0 8, LibusbAllocTransfer, Malloc 17,
       LibusbSubmitTransfer [0x42, 0x65, 0, 0, 0, 0, 8, 0, 0, 0, 0, 0, 1, 0, 0, 0],
       LibusbHandleEvents, Free, LibusbFreeTransfer,
       ControlTransfer 0xC2 0x65 0 0 4, LibusbAllocTransfer, Malloc 13,
       LibusbSubmitTransfer [0xC2, 0x65, 0, 0, 0, 0, 4, 0, 0xEE, 0xEE, 0xEE, 0xEE],
       LibusbHandleEvents, Free, LibusbFreeTransfer])
   \<and> sync_transfer_wait_for_completion (events (completing 0 LIBUSB_TRANSFER_STALL [])) None
       (libusb_fill_control_transfer (Some 1)
          [0x42, 0x65, 0, 0, 0, 0, 8, 0, 0, 0, 0, 0, 1, 0, 0, 0, 0xEE] 8 1000) =
     (Inr (Some 0,
           \<lparr>dev_handle = Some 1, status = LIBUSB_TRANSFER_STALL, xfer_length = 16,
            actual_length = 0,
            buffer = [0x42, 0x65, 0, 0, 0, 0, 8, 0, 0, 0, 0, 0, 1, 0, 0, 0, 0xEE],
            timeout = 1000, completed = 1\<rparr>),
      [LibusbHandleEvents])
   \<and> control_transfers
       (snd (greatfet_execute_libgreat_command example_consts
               (completing 0 LIBUSB_TRANSFER_STALL [])
               (completing 0 LIBUSB_TRANSFER_COMPLETED [1, 2, 3, 4]) example_device
               \<lparr>class_number = 0, verb_number = 1, payload = [], payload_length = 0\<rparr>
               (Some [0, 0, 0, 0]) 4 1000)) =
     [ControlTransfer 0x42 0x65 0 0 8, ControlTransfer 0xC2 0x65 0 0 4]
   \<and> control_transfers
       (snd (greatfet_execute_libgreat_command example_consts
               (erroring 0 LIBUSB_ERROR_IO)
               (completing 0 LIBUSB_TRANSFER_COMPLETED [1, 2, 3, 4]) example_device
               \<lparr>class_number = 0, verb_number = 1, payload = [], payload_length = 0\<rparr>
               (Some [0, 0, 0, 0]) 4 1000)) =
     [ControlTransfer 0x42 0x65 0 0 8, ControlTransfer 0xC2 0x65 0 0 4]
   \<and> control_transfers
       (snd (greatfet_execute_libgreat_command example_consts
               (closing 0)
               (completing 0 LIBUSB_TRANSFER_COMPLETED [1, 2, 3, 4]) example_device
               \<lparr>class_number = 0, verb_number = 1, payload = [], payload_length = 0\<rparr>
               (Some [0, 0, 0, 0]) 4 1000)) =
     [ControlTransfer 0x42 0x65 0 0 8, ControlTransfer 0xC2 0x65 0 0 4]"
  by code_simp

text \<open>
  Claim C1. The claim is that a successful command with \<open>response_max_length > 0\<close>
  returns the number of response bytes received, and that a failure returns a negative
  code. Evaluated on a command with \<open>response_max_length = 4\<close> whose two submissions
  return 0: when the device-to-host transfer completes with the four bytes
  \<open>1, 2, 3, 4\<close> (libusb records an actual length of 4), the command returns 0, the
  result of the submission; when that transfer ends with status
  \<open>LIBUSB_TRANSFER_ERROR\<close>, the command returns 0 as well.
\<close>

theorem execute_returns_submit_result:
  "fst (greatfet_execute_libgreat_command example_consts
          (completing 0 LIBUSB_TRANSFER_COMPLETED [])
          (completing 0 LIBUSB_TRANSFER_COMPLETED [1, 2, 3, 4]) example_device
          \<lparr>class_number = 0, verb_number = 1, payload = [], payload_length = 0\<rparr>
          (Some [0, 0, 0, 0]) 4 1000) = Inr (0, Some [0xC2, 0x65, 0, 0])
   \<and> transfer_buffer (completing 0 LIBUSB_TRANSFER_COMPLETED [1, 2, 3, 4])
        0xC2 0x65 0 0 (Some [0, 0, 0, 0]) 4 =
      Inr [0xC2, 0x65, 0, 0, 0, 0, 4, 0, 0xEE, 0xEE, 0xEE, 0xEE, 0xEE]
   \<and> (case sync_transfer_wait_for_completion
             (events (completing 0 LIBUSB_TRANSFER_COMPLETED [1, 2, 3, 4])) None
             (libusb_fill_control_transfer (Some 1)
                [0xC2, 0x65, 0, 0, 0, 0, 4, 0, 0xEE, 0xEE, 0xEE, 0xEE, 0xEE] 4 1000) of
         (Inr (rc, transfer), tr) \<Rightarrow>
           status transfer = LIBUSB_TRANSFER_COMPLETED \<and> actual_length transfer = 4
           \<and> buffer transfer = [0xC2, 0x65, 0, 0, 0, 0, 4, 0, 1, 2, 3, 4, 0xEE]
       | (Inl f, tr) \<Rightarrow> False)
   \<and> fst (greatfet_execute_libgreat_command example_consts
          (completing 0 LIBUSB_TRANSFER_COMPLETED [])
          (completing 0 LIBUSB_TRANSFER_ERROR []) example_device
          \<lparr>class_number = 0, verb_number = 1, payload = [], payload_length = 0\<rparr>
          (Some [0, 0, 0, 0]) 4 1000) = Inr (0, Some [0xC2, 0x65, 0, 0])"
  by code_simp

subsection \<open>Configuring\<close>

text \<open>
  Claim C3, as amended. A \<open>greatfet_configure\<close> that returns has decoded the response
  buffer left by the command and stored the endpoint member of the decoded response in
  both \<open>la_endpoint\<close> and \<open>endpoint\<close> of the device context. Nothing else of the
  device changes: the decoded sample rate and buffer size are stored nowhere, and
  \<open>sample_rate\<close> keeps the requested value.
\<close>

theorem configure_records_endpoint_only:
  assumes "fst (greatfet_configure K env_out env_in stack device) = Inr (rc, device')"
  shows "\<exists>bytes. fst (greatfet_execute_libgreat_command K env_out env_in device
                  (configure_packet K (priv device))
                  (Some (map stack [0..<sizeof_configure_response])) sizeof_configure_response
                  (GREATFET_LOGIC_DEFAULT_TIMEOUT K)) = Inr (rc, Some bytes)
     \<and> device' = device\<lparr>priv := (priv device)
           \<lparr>la_endpoint := response_endpoint (decode_configure_response bytes),
            endpoint := response_endpoint (decode_configure_response bytes)\<rparr>\<rparr>"
  using assms
  by (auto simp: greatfet_configure_def Let_def split: sum.splits prod.splits option.splits)

text \<open>A run of it, in which both transfers of the configure command complete.\<close>

theorem configure_records_endpoint_only_witness:
  "fst (greatfet_configure example_consts (completing 0 LIBUSB_TRANSFER_COMPLETED [])
          (completing 0 LIBUSB_TRANSFER_COMPLETED [0x40, 0x42, 0x0F, 0, 0, 0x40, 0, 0, 0x82, 0, 0, 0])
          (fill_byte 0x55) example_device) =
     Inr (0, example_device\<lparr>priv := (priv example_device)\<lparr>la_endpoint := 0x40, endpoint := 0x40\<rparr>\<rparr>)
   \<and> (\<exists>bytes. fst (greatfet_execute_libgreat_command example_consts
          (completing 0 LIBUSB_TRANSFER_COMPLETED [])
          (completing 0 LIBUSB_TRANSFER_COMPLETED [0x40, 0x42, 0x0F, 0, 0, 0x40, 0, 0, 0x82, 0, 0, 0])
          example_device (configure_packet example_consts (priv example_device))
          (Some (map (fill_byte 0x55) [0..<sizeof_configure_response])) sizeof_configure_response
          (GREATFET_LOGIC_DEFAULT_TIMEOUT example_consts)) = Inr (0, Some bytes)
      \<and> response_endpoint (decode_configure_response bytes) = 0x40)"
proof -
  have run: "fst (greatfet_configure example_consts (completing 0 LIBUSB_TRANSFER_COMPLETED [])
          (completing 0 LIBUSB_TRANSFER_COMPLETED [0x40, 0x42, 0x0F, 0, 0, 0x40, 0, 0, 0x82, 0, 0, 0])
          (fill_byte 0x55) example_device) =
     Inr (0, example_device\<lparr>priv := (priv example_device)\<lparr>la_endpoint := 0x40, endpoint := 0x40\<rparr>\<rparr>)"
    by code_simp
  show ?thesis
    using run configure_records_endpoint_only [OF run]
    by (auto simp: example_device_def)
qed

text \<open>
  Claim C3, as stated, fails: the device is asked for 24000000 Hz, both transfers of
  the configure command complete, the response decoded from the buffer has an achieved
  sample rate of 26050 and a buffer size of 786432, and afterwards the context still
  holds the sample rate 24000000; only the two endpoint fields changed.
\<close>

theorem configure_keeps_sample_rate:
  "fst (greatfet_configure example_consts (completing 0 LIBUSB_TRANSFER_COMPLETED [])
          (completing 0 LIBUSB_TRANSFER_COMPLETED [0x40, 0x42, 0x0F, 0, 0, 0x40, 0, 0, 0x82, 0, 0, 0])
          (fill_byte 0x55) example_device) =
     Inr (0, \<lparr>conn = \<lparr>devhdl = Some 1\<rparr>,
              priv = \<lparr>sample_rate = 24000000, num_channels = 8, la_endpoint = 0x40,
                      endpoint = 0x40, transfers = []\<rparr>\<rparr>)
   \<and> fst (greatfet_execute_libgreat_command example_consts
          (completing 0 LIBUSB_TRANSFER_COMPLETED [])
          (completing 0 LIBUSB_TRANSFER_COMPLETED [0x40, 0x42, 0x0F, 0, 0, 0x40, 0, 0, 0x82, 0, 0, 0])
          example_device (configure_packet example_consts (priv example_device))
          (Some (map (fill_byte 0x55) [0..<sizeof_configure_response])) sizeof_configure_response
          (GREATFET_LOGIC_DEFAULT_TIMEOUT example_consts)) =
     Inr (0, Some [0xC2, 0x65, 0, 0, 0, 0, 12, 0, 0x40, 0x42, 0x0F, 0])
   \<and> decode_configure_response [0xC2, 0x65, 0, 0, 0, 0, 12, 0, 0x40, 0x42, 0x0F, 0] =
     \<lparr>sample_rate_achieved_hz = 26050, buffer_size = 786432, response_endpoint = 0x40\<rparr>"
  by code_simp

text \<open>
  Claim C10. Whatever the configure command returned, a negative code included,
  \<open>greatfet_configure\<close> returns that code after it has set \<open>la_endpoint\<close> and
  \<open>endpoint\<close> of the device context to the byte at offset 8 of the response buffer,
  which always has its twelve bytes.
\<close>

theorem configure_overwrites_endpoints:
  assumes "fst (greatfet_execute_libgreat_command K env_out env_in device
                  (configure_packet K (priv device))
                  (Some (map stack [0..<sizeof_configure_response])) sizeof_configure_response
                  (GREATFET_LOGIC_DEFAULT_TIMEOUT K)) = Inr (rc, buf)"
  shows "\<exists>bytes device'. buf = Some bytes \<and> length bytes = sizeof_configure_response
     \<and> fst (greatfet_configure K env_out env_in stack device) = Inr (rc, device')
     \<and> la_endpoint (priv device') = bytes ! 8 \<and> endpoint (priv device') = bytes ! 8"
proof -
  from execute_buffer_length [OF assms] obtain bytes where
    b: "buf = Some bytes" "length bytes = sizeof_configure_response"
    by auto
  obtain r tr where ex: "greatfet_execute_libgreat_command K env_out env_in device
                  (configure_packet K (priv device))
                  (Some (map stack [0..<sizeof_configure_response])) sizeof_configure_response
                  (GREATFET_LOGIC_DEFAULT_TIMEOUT K) = (r, tr)"
    by (cases "greatfet_execute_libgreat_command K env_out env_in device
                  (configure_packet K (priv device))
                  (Some (map stack [0..<sizeof_configure_response])) sizeof_configure_response
                  (GREATFET_LOGIC_DEFAULT_TIMEOUT K)")
  have r: "r = Inr (rc, Some bytes)" using assms ex b by simp
  show ?thesis
    using b by (simp add: greatfet_configure_def Let_def ex r decode_configure_response_def)
qed

text \<open>
  A run of it on a failure: the device handle is null, the command returns
  \<open>LIBUSB_ERROR_INVALID_PARAM\<close> with the response buffer as the stack left it, here
  filled with \<open>0x55\<close>, and both endpoint fields, 0 before, hold \<open>0x55\<close> afterwards.
\<close>

theorem configure_overwrites_endpoints_witness:
  "fst (greatfet_execute_libgreat_command example_consts
          (completing 0 LIBUSB_TRANSFER_COMPLETED []) (completing 0 LIBUSB_TRANSFER_COMPLETED [])
          (example_device\<lparr>conn := \<lparr>devhdl = None\<rparr>\<rparr>)
          (configure_packet example_consts (priv (example_device\<lparr>conn := \<lparr>devhdl = None\<rparr>\<rparr>)))
          (Some (map (fill_byte 0x55) [0..<sizeof_configure_response])) sizeof_configure_response
          (GREATFET_LOGIC_DEFAULT_TIMEOUT example_consts)) =
     Inr (LIBUSB_ERROR_INVALID_PARAM, Some (replicate 12 0x55))
   \<and> (\<exists>device'. fst (greatfet_configure example_consts
          (completing 0 LIBUSB_TRANSFER_COMPLETED []) (completing 0 LIBUSB_TRANSFER_COMPLETED [])
          (fill_byte 0x55) (example_device\<lparr>conn := \<lparr>devhdl = None\<rparr>\<rparr>)) =
        Inr (LIBUSB_ERROR_INVALID_PARAM, device')
      \<and> la_endpoint (priv device') = 0x55 \<and> endpoint (priv device') = 0x55)
   \<and> la_endpoint (priv example_device) = 0 \<and> endpoint (priv example_device) = 0
   \<and> LIBUSB_ERROR_INVALID_PARAM < 0"
proof -
  have run: "fst (greatfet_execute_libgreat_command example_consts
          (completing 0 LIBUSB_TRANSFER_COMPLETED []) (completing 0 LIBUSB_TRANSFER_COMPLETED [])
          (example_device\<lparr>conn := \<lparr>devhdl = None\<rparr>\<rparr>)
          (configure_packet example_consts (priv (example_device\<lparr>conn := \<lparr>devhdl = None\<rparr>\<rparr>)))
          (Some (map (fill_byte 0x55) [0..<sizeof_configure_response])) sizeof_configure_response
          (GREATFET_LOGIC_DEFAULT_TIMEOUT example_consts)) =
     Inr (LIBUSB_ERROR_INVALID_PARAM, Some (replicate 12 0x55))"
    by code_simp
  have rest: "la_endpoint (priv example_device) = 0 \<and> endpoint (priv example_device) = 0
      \<and> LIBUSB_ERROR_INVALID_PARAM < 0"
    by (simp add: example_device_def LIBUSB_ERROR_INVALID_PARAM_def)
  have nth: "replicate 12 (0x55 :: u8) ! 8 = 0x55" by simp
  show ?thesis
    using run rest nth configure_overwrites_endpoints [OF run]
    by auto
qed

subsection \<open>The transfer pool\<close>

lemma cancel_loop_calls:
  "snd (cancel_loop cancel_rc i slots rc) = map the (filter (\<lambda>s. s \<noteq> None) slots)"
proof (induction slots arbitrary: i rc)
  case Nil
  show ?case by simp
next
  case (Cons slot rest)
  show ?case
  proof (cases slot)
    case None
    then show ?thesis using Cons.IH [of "Suc i" rc] by simp
  next
    case (Some t)
    then show ?thesis using Cons.IH [of "Suc i" "Some (cancel_rc i)"]
      by (simp add: split_beta)
  qed
qed

lemma filter_upt_Suc:
  "filter P [0..<Suc n] = (if P 0 then [0] else []) @ map Suc (filter (\<lambda>j. P (Suc j)) [0..<n])"
proof -
  have "[0..<Suc n] = 0 # map Suc [0..<n]"
    by (simp add: upt_conv_Cons map_Suc_upt del: upt_Suc)
  then show ?thesis
    by (simp add: filter_map comp_def del: upt_Suc)
qed

text \<open>The value returned is the one assigned at the last live slot, whatever came before.\<close>

lemma cancel_loop_rc:
  "fst (cancel_loop cancel_rc i slots rc) =
     (case filter (\<lambda>j. slots ! j \<noteq> None) [0..<length slots] of
        [] \<Rightarrow> rc
      | js \<Rightarrow> Some (cancel_rc (i + last js)))"
proof (induction slots arbitrary: i rc)
  case Nil
  show ?case by simp
next
  case (Cons slot rest)
  let ?js = "filter (\<lambda>j. rest ! j \<noteq> None) [0..<length rest]"
  have idx: "filter (\<lambda>j. (slot # rest) ! j \<noteq> None) [0..<length (slot # rest)] =
      (if slot \<noteq> None then [0] else []) @ map Suc ?js"
    using filter_upt_Suc [of "\<lambda>j. (slot # rest) ! j \<noteq> None" "length rest"] by simp
  show ?case
  proof (cases slot)
    case None
    then show ?thesis using Cons.IH [of "Suc i" rc] idx
      by (cases ?js) (simp_all add: last_map)
  next
    case (Some t)
    then show ?thesis using Cons.IH [of "Suc i" "Some (cancel_rc i)"] idx
      by (cases ?js) (simp_all add: split_beta last_map)
  qed
qed

lemma cancel_loop_all_null:
  "cancel_loop cancel_rc i (replicate n None) rc = (rc, [])"
  by (induction n arbitrary: i) simp_all

text \<open>
  Claim C8. \<open>greatfet_cancel_transfers\<close> calls \<open>libusb_cancel_transfer\<close> on the
  transfers of the non-null slots and on nothing else, in slot order. What it returns
  is the result of the call made at the last non-null slot, whatever the earlier calls
  returned; with no non-null slot its \<open>rc\<close> was never assigned. On a pool of null
  slots only, of any size, it makes no call.
\<close>

theorem cancel_transfers_live_slots:
  "snd (greatfet_cancel_transfers cancel_rc device) =
     map the (filter (\<lambda>s. s \<noteq> None) (transfers (priv device)))
   \<and> fst (greatfet_cancel_transfers cancel_rc device) =
     (case filter (\<lambda>j. transfers (priv device) ! j \<noteq> None)
             [0..<length (transfers (priv device))] of
        [] \<Rightarrow> None
      | js \<Rightarrow> Some (cancel_rc (last js)))
   \<and> greatfet_cancel_transfers cancel_rc
       (device\<lparr>priv := (priv device)\<lparr>transfers := replicate n None\<rparr>\<rparr>) = (None, [])"
  unfolding greatfet_cancel_transfers_def
  using cancel_loop_calls [of cancel_rc 0 "transfers (priv device)" None]
    cancel_loop_rc [of cancel_rc 0 "transfers (priv device)" None]
    cancel_loop_all_null [of cancel_rc 0 n None]
  by (simp split: list.splits)

lemma free_loop_slots: "fst (free_loop slots) = replicate (length slots) None"
  by (induction slots) (simp_all add: split_beta split: option.splits)

lemma free_loop_calls: "snd (free_loop slots) = map the (filter (\<lambda>s. s \<noteq> None) slots)"
  by (induction slots) (simp_all add: split_beta split: option.splits)

lemma free_loop_all_null: "free_loop (replicate n None) = (replicate n None, [])"
  by (induction n) simp_all

text \<open>
  Claim C9. On any pool, \<open>greatfet_free_transfers\<close> returns 0, hands the transfer of
  each non-null slot to \<open>libusb_free_transfer\<close> once, in slot order, and leaves every
  slot null and the rest of the context as it was. Called again on the context it
  returned, it returns 0, frees nothing and changes nothing.
\<close>

theorem free_transfers_idempotent:
  "(case greatfet_free_transfers context of
      (rc, context', freed) \<Rightarrow>
        rc = 0
        \<and> context' = context\<lparr>transfers := replicate (length (transfers context)) None\<rparr>
        \<and> freed = map the (filter (\<lambda>s. s \<noteq> None) (transfers context))
        \<and> greatfet_free_transfers context' = (0, context', []))"
  unfolding greatfet_free_transfers_def
  using free_loop_slots [of "transfers context"] free_loop_calls [of "transfers context"]
    free_loop_all_null [of "length (transfers context)"]
  by (simp add: split_beta)

end
